theory Spec2Isabelle
  imports Main
begin

section \<open>cligateway: an HTTP gateway to whitelisted command line programs\<close>

text \<open>
  A shallow embedding of \<^verbatim>\<open>cligateway.go\<close>. Go strings are byte sequences and are
  modelled by \<^typ>\<open>string\<close> (a list of 8-bit characters). The functions of Go's
  \<^verbatim>\<open>strings\<close> package that the program calls come first, then the data of the
  program, then its functions, each before the functions that call it.
\<close>

subsection \<open>The functions of package strings that the program calls\<close>

text \<open>
  \<^verbatim>\<open>strings.HasPrefix(s, prefix)\<close> is
  \<^verbatim>\<open>len(s) >= len(prefix) && s[:len(prefix)] == prefix\<close>.
\<close>

definition HasPrefix :: "string \<Rightarrow> string \<Rightarrow> bool" where
  "HasPrefix s prefix \<longleftrightarrow> length s \<ge> length prefix \<and> take (length prefix) s = prefix"

text \<open>
  \<^verbatim>\<open>strings.TrimSpace\<close> removes leading and trailing white space as defined by Unicode.
  It decodes UTF-8, and a rune is white space exactly when it is one of the code points
  below; each has a single valid encoding, listed here as bytes. An invalid or any other
  sequence decodes to a rune that is not white space and stops the trimming.
\<close>

definition spaceRunes :: "string list" where
  "spaceRunes =
    [[CHR 0x09], [CHR 0x0A], [CHR 0x0B], [CHR 0x0C], [CHR 0x0D], [CHR 0x20],
     [CHR 0xC2, CHR 0x85], [CHR 0xC2, CHR 0xA0],
     [CHR 0xE1, CHR 0x9A, CHR 0x80],
     [CHR 0xE2, CHR 0x80, CHR 0x80], [CHR 0xE2, CHR 0x80, CHR 0x81],
     [CHR 0xE2, CHR 0x80, CHR 0x82], [CHR 0xE2, CHR 0x80, CHR 0x83],
     [CHR 0xE2, CHR 0x80, CHR 0x84], [CHR 0xE2, CHR 0x80, CHR 0x85],
     [CHR 0xE2, CHR 0x80, CHR 0x86], [CHR 0xE2, CHR 0x80, CHR 0x87],
     [CHR 0xE2, CHR 0x80, CHR 0x88], [CHR 0xE2, CHR 0x80, CHR 0x89],
     [CHR 0xE2, CHR 0x80, CHR 0x8A],
     [CHR 0xE2, CHR 0x80, CHR 0xA8], [CHR 0xE2, CHR 0x80, CHR 0xA9],
     [CHR 0xE2, CHR 0x80, CHR 0xAF], [CHR 0xE2, CHR 0x81, CHR 0x9F],
     [CHR 0xE3, CHR 0x80, CHR 0x80]]"

text \<open>
  The width in bytes of the white-space rune that \<open>s\<close> starts with, \<open>0\<close> when it starts
  with none; \<open>encs\<close> is the list of encodings to look for.
\<close>

fun spaceWidth :: "string list \<Rightarrow> string \<Rightarrow> nat" where
  "spaceWidth [] s = 0"
| "spaceWidth (e # encs) s =
     (if e \<noteq> [] \<and> HasPrefix s e then length e else spaceWidth encs s)"

function trimRunes :: "string list \<Rightarrow> string \<Rightarrow> string" where
  "trimRunes encs s =
     (if spaceWidth encs s = 0 then s else trimRunes encs (drop (spaceWidth encs s) s))"
  by pat_completeness auto
termination
proof (relation "measure (\<lambda>(encs, s). length s)")
  show "wf (measure (\<lambda>(encs :: string list, s :: string). length s))"
    by simp
next
  fix encs :: "string list" and s :: string
  assume "spaceWidth encs s \<noteq> 0"
  moreover have "0 < spaceWidth encs s \<Longrightarrow> s \<noteq> []"
    by (induction encs) (auto simp: HasPrefix_def split: if_splits)
  ultimately have "length (drop (spaceWidth encs s) s) < length s"
    by (cases s) auto
  then show "((encs, drop (spaceWidth encs s) s), (encs, s))
               \<in> measure (\<lambda>(encs, s). length s)"
    by simp
qed

declare trimRunes.simps [simp del]

definition TrimLeftSpace :: "string \<Rightarrow> string" where
  "TrimLeftSpace s = trimRunes spaceRunes s"

text \<open>
  From the right, the last rune is white space exactly when the string ends with one of
  the encodings, that is when the reversed string starts with a reversed encoding.
\<close>

definition TrimRightSpace :: "string \<Rightarrow> string" where
  "TrimRightSpace s = rev (trimRunes (map rev spaceRunes) (rev s))"

definition TrimSpace :: "string \<Rightarrow> string" where
  "TrimSpace s = TrimRightSpace (TrimLeftSpace s)"

text \<open>
  \<^verbatim>\<open>strings.Split(s, sep)\<close> for a separator of one byte, the only kind the program
  passes: the substrings between the occurrences of \<open>sep\<close>, of which there is one more
  than there are occurrences. \<open>tok\<close> is the substring read so far.
\<close>

fun Split_from :: "char \<Rightarrow> string \<Rightarrow> string \<Rightarrow> string list" where
  "Split_from sep tok [] = [tok]"
| "Split_from sep tok (x # s) =
     (if x = sep then tok # Split_from sep [] s else Split_from sep (tok @ [x]) s)"

definition Split :: "string \<Rightarrow> char \<Rightarrow> string list" where
  "Split s sep = Split_from sep [] s"

text \<open>
  \<^verbatim>\<open>strings.ToUpper\<close> and \<^verbatim>\<open>strings.ToLower\<close> map an ASCII-only string byte by byte.
  A string with a byte from \<open>0x80\<close> on goes through the Unicode case tables instead
  (\<^verbatim>\<open>strings.Map(unicode.ToUpper, s)\<close>); that mapping is the parameter \<open>uni\<close>.
\<close>

definition isASCII :: "string \<Rightarrow> bool" where
  "isASCII s = list_all (\<lambda>c. (of_char c :: nat) < 0x80) s"

definition upperByte :: "char \<Rightarrow> char" where
  "upperByte c =
     (let n = (of_char c :: nat) in if 0x61 \<le> n \<and> n \<le> 0x7A then char_of (n - 0x20) else c)"

definition lowerByte :: "char \<Rightarrow> char" where
  "lowerByte c =
     (let n = (of_char c :: nat) in if 0x41 \<le> n \<and> n \<le> 0x5A then char_of (n + 0x20) else c)"

definition ToUpper :: "(string \<Rightarrow> string) \<Rightarrow> string \<Rightarrow> string" where
  "ToUpper uni s = (if isASCII s then map upperByte s else uni s)"

definition ToLower :: "(string \<Rightarrow> string) \<Rightarrow> string \<Rightarrow> string" where
  "ToLower uni s = (if isASCII s then map lowerByte s else uni s)"

subsection \<open>Data\<close>

text \<open>
  A Go map is \<^verbatim>\<open>nil\<close> (\<open>None\<close>) or holds a finite partial function. Reading and
  ranging over a nil map behave as for an empty one; assigning into it panics.
\<close>

type_synonym gomap = "(string \<rightharpoonup> string) option"

datatype panic = NilMapAssignment | IndexOutOfRange

definition mapassign :: "gomap \<Rightarrow> string \<Rightarrow> string \<Rightarrow> panic + gomap" where
  "mapassign m k v = (case m of None \<Rightarrow> Inl NilMapAssignment | Some f \<Rightarrow> Inr (Some (f(k \<mapsto> v))))"

text \<open>
  The struct \<^verbatim>\<open>request\<close>. A nil slice and an empty slice are both \<open>[]\<close>: the program
  only appends to and ranges over \<^verbatim>\<open>args\<close>, which does not tell them apart.
\<close>

record request =
  command :: string
  flags :: gomap
  args :: "string list"
  envs :: gomap

text \<open>
  The package-level variables: the five command line flags, the whitelist and the
  runner. \<open>flagDefaults\<close> holds the values of the \<^verbatim>\<open>var\<close> block.
\<close>

datatype runner = RunText | RunJson

record config =
  addDashes :: bool
  envKeyToUpper :: bool
  responseType :: string
  serverAddr :: string
  verboseRun :: bool
  whitelist :: "string list"
  myRunner :: runner

definition flagDefaults :: config where
  "flagDefaults =
     \<lparr>addDashes = False, envKeyToUpper = False, responseType = ''json'',
      serverAddr = ''localhost:8080'', verboseRun = False, whitelist = [''pwd''],
      myRunner = RunJson\<rparr>"

text \<open>
  \<^verbatim>\<open>exec.Cmd\<close>, with the fields the program sets. \<open>Env = None\<close> is the nil slice, which
  package \<^verbatim>\<open>os/exec\<close> tells apart from an empty one.
\<close>

record cmd =
  Path :: string
  Args :: "string list"
  Env :: "string list option"

text \<open>What running a command gives: an error, or the captured output of a process
  that exited with status 0 (standard output, standard error, and both interleaved).\<close>

datatype outcome = Failed string | Exited string string string

text \<open>
  Everything the handlers take from outside the program:
  the order in which a \<^verbatim>\<open>range\<close> loop visits the entries of a non-nil map, which the
  Go runtime chooses; the Unicode case mappings; and the operating system, which runs a
  command and whose own environment a child may inherit.
\<close>

record world =
  rangeOrder :: "(string \<rightharpoonup> string) \<Rightarrow> (string \<times> string) list"
  unicodeUpper :: "string \<Rightarrow> string"
  unicodeLower :: "string \<Rightarrow> string"
  execute :: "cmd \<Rightarrow> outcome"
  hostEnviron :: "string list"

text \<open>
  \<open>rangeOrder\<close> is a possible order for the map \<open>f\<close> when it lists each entry of
  \<open>f\<close> once and nothing else. The order is a function of the contents of the map here:
  a request ranges over each of its maps once, so that no handler sees two orders of one
  map. Every statement below that depends on the order holds for every world, that is
  for every choice of orders.
\<close>

definition valid_range :: "world \<Rightarrow> (string \<rightharpoonup> string) \<Rightarrow> bool" where
  "valid_range w f \<longleftrightarrow> distinct (map fst (rangeOrder w f)) \<and> map_of (rangeOrder w f) = f"

definition rangeMap :: "world \<Rightarrow> gomap \<Rightarrow> (string \<times> string) list" where
  "rangeMap w m = (case m of None \<Rightarrow> [] | Some f \<Rightarrow> rangeOrder w f)"


text \<open>
  The part of \<^verbatim>\<open>gin.Context\<close> that the handlers change: the responses written, in order
  (status and body), and the commands handed to the operating system to run. Log output
  is not modelled.
\<close>

datatype body = JSON_error string | JSON_output string string | Text string

record gin_context =
  written :: "(nat \<times> body) list"
  started :: "cmd list"

definition newContext :: gin_context where
  "newContext = \<lparr>written = [], started = []\<rparr>"

subsection \<open>The invocation model\<close>

text \<open>
  \<^verbatim>\<open>flagStrings\<close>: the body of the loop over \<^verbatim>\<open>req.flags\<close>, run on the entries in the
  order the \<^verbatim>\<open>range\<close> visits them; \<open>fs\<close> is the slice \<^verbatim>\<open>flags\<close> built so far. \<^verbatim>\<open>len(k)\<close>
  counts bytes.
\<close>

fun flagStrings_loop :: "bool \<Rightarrow> (string \<times> string) list \<Rightarrow> string list \<Rightarrow> string list" where
  "flagStrings_loop dashes [] fs = fs"
| "flagStrings_loop dashes ((k0, v0) # kvs) fs =
     (let k = TrimSpace k0;
          v = TrimSpace v0;
          k = (if dashes \<and> \<not> HasPrefix k ''-''
               then (if length k = 1 then ''-'' @ k else ''--'' @ k)
               else k);
          fs = fs @ [k];
          fs = (if v \<noteq> '''' then fs @ [v] else fs)
      in flagStrings_loop dashes kvs fs)"

definition flagStrings :: "config \<Rightarrow> world \<Rightarrow> request \<Rightarrow> string list" where
  "flagStrings cfg w req = flagStrings_loop (addDashes cfg) (rangeMap w (flags req)) []"

text \<open>
  \<^verbatim>\<open>envStrings\<close> starts from the nil slice \<^verbatim>\<open>var envs []string\<close> (\<open>es\<close>) and returns it
  untouched when the loop body never runs; \<^verbatim>\<open>append\<close> to a nil slice gives a non-nil
  one.
\<close>

definition append1 :: "string list option \<Rightarrow> string \<Rightarrow> string list option" where
  "append1 slice x = (case slice of None \<Rightarrow> Some [x] | Some xs \<Rightarrow> Some (xs @ [x]))"

fun envStrings_loop ::
  "bool \<Rightarrow> (string \<Rightarrow> string) \<Rightarrow> (string \<times> string) list \<Rightarrow> string list option
     \<Rightarrow> string list option" where
  "envStrings_loop upper uni [] es = es"
| "envStrings_loop upper uni ((k0, v0) # kvs) es =
     (let k = TrimSpace k0;
          v = TrimSpace v0;
          k = (if upper then ToUpper uni k else k)
      in envStrings_loop upper uni kvs (append1 es (k @ ''='' @ v)))"

definition envStrings :: "config \<Rightarrow> world \<Rightarrow> request \<Rightarrow> string list option" where
  "envStrings cfg w req =
     envStrings_loop (envKeyToUpper cfg) (unicodeUpper w) (rangeMap w (envs req)) None"

definition fullArgs :: "config \<Rightarrow> world \<Rightarrow> request \<Rightarrow> string list" where
  "fullArgs cfg w req = flagStrings cfg w req @ args req"

subsection \<open>Whitelist, sanitizer and execution\<close>

text \<open>
  These functions come after the handlers in the source; the handlers call them. The
  parameters \<^verbatim>\<open>command\<close> and \<^verbatim>\<open>args\<close> of the source are \<open>name\<close> and \<open>argv\<close> here,
  the fields of \<^typ>\<open>request\<close> having taken the names.
\<close>

definition respError :: "gin_context \<Rightarrow> nat \<Rightarrow> string \<Rightarrow> gin_context" where
  "respError c status message = c\<lparr>written := written c @ [(status, JSON_error message)]\<rparr>"

fun inWhitelist_loop :: "string list \<Rightarrow> string \<Rightarrow> bool" where
  "inWhitelist_loop [] name = False"
| "inWhitelist_loop (w # ws) name = (if name = w then True else inWhitelist_loop ws name)"

definition inWhitelist :: "config \<Rightarrow> string \<Rightarrow> bool" where
  "inWhitelist cfg name = inWhitelist_loop (whitelist cfg) name"

text \<open>\<^verbatim>\<open>checkCommand\<close> returns nothing: its caller gets the context back either way.\<close>

definition checkCommand :: "config \<Rightarrow> gin_context \<Rightarrow> string \<Rightarrow> string list \<Rightarrow> gin_context" where
  "checkCommand cfg c name argv =
     (if \<not> inWhitelist cfg name then respError c 403 ''command not allowed.'' else c)"

fun argsFilter_loop :: "string list \<Rightarrow> string list \<Rightarrow> string list" where
  "argsFilter_loop [] s = s"
| "argsFilter_loop (a # argv) s =
     (if a = '''' then argsFilter_loop argv s else argsFilter_loop argv (s @ [TrimSpace a]))"

definition argsFilter :: "string list \<Rightarrow> string list" where
  "argsFilter argv = argsFilter_loop argv []"

definition runFailed :: "gin_context \<Rightarrow> cmd \<Rightarrow> string \<Rightarrow> gin_context" where
  "runFailed c cmd err = respError c 500 (''failed to run cmd: '' @ err)"

text \<open>\<^verbatim>\<open>cmd.CombinedOutput()\<close> and \<^verbatim>\<open>cmd.Run()\<close> hand the command to the operating
  system.\<close>

definition runText :: "world \<Rightarrow> gin_context \<Rightarrow> cmd \<Rightarrow> gin_context" where
  "runText w c cmd =
     (let c = c\<lparr>started := started c @ [cmd]\<rparr>
      in case execute w cmd of
           Failed err \<Rightarrow> runFailed c cmd err
         | Exited out errout combined \<Rightarrow> c\<lparr>written := written c @ [(200, Text combined)]\<rparr>)"

definition runJson :: "world \<Rightarrow> gin_context \<Rightarrow> cmd \<Rightarrow> gin_context" where
  "runJson w c cmd =
     (let c = c\<lparr>started := started c @ [cmd]\<rparr>
      in case execute w cmd of
           Failed err \<Rightarrow> runFailed c cmd err
         | Exited out errout combined \<Rightarrow>
             c\<lparr>written := written c @ [(200, JSON_output out errout)]\<rparr>)"

definition call_runner :: "runner \<Rightarrow> world \<Rightarrow> gin_context \<Rightarrow> cmd \<Rightarrow> gin_context" where
  "call_runner r w c cmd = (case r of RunText \<Rightarrow> runText w c cmd | RunJson \<Rightarrow> runJson w c cmd)"

text \<open>\<^verbatim>\<open>exec.CommandContext(c, name, arg...)\<close>: the arguments of the process are the
  name followed by \<open>arg\<close>; \<^verbatim>\<open>Env\<close> starts nil.\<close>

definition CommandContext :: "string \<Rightarrow> string list \<Rightarrow> cmd" where
  "CommandContext name arg = \<lparr>Path = name, Args = name # arg, Env = None\<rparr>"

definition run ::
  "config \<Rightarrow> world \<Rightarrow> gin_context \<Rightarrow> string \<Rightarrow> string list \<Rightarrow> string list option
     \<Rightarrow> gin_context" where
  "run cfg w c name argv env =
     (let c = checkCommand cfg c name argv;
          argv = argsFilter argv;
          cmd = CommandContext name argv;
          cmd = cmd\<lparr>Env := env\<rparr>
      in call_runner (myRunner cfg) w c cmd)"

subsection \<open>The request translators\<close>

text \<open>
  \<^verbatim>\<open>getHandler\<close>. The router supplies the two path parameters and the parsed query;
  \<open>query\<close> lists the entries of \<^verbatim>\<open>c.Request.URL.Query()\<close> in the order the loop visits
  them. \<^verbatim>\<open>var req request\<close> is the zero value, whose maps are nil.
\<close>

definition zeroRequest :: request where
  "zeroRequest = \<lparr>command = '''', flags = None, args = [], envs = None\<rparr>"

fun getHandler_loop :: "(string \<times> string list) list \<Rightarrow> request \<Rightarrow> panic + request" where
  "getHandler_loop [] req = Inr req"
| "getHandler_loop ((k, v) # query) req =
     (if k \<noteq> '''' \<and> length v > 0
      then (case mapassign (flags req) k (v ! 0) of
              Inl p \<Rightarrow> Inl p
            | Inr m \<Rightarrow> getHandler_loop query (req\<lparr>flags := m\<rparr>))
      else getHandler_loop query req)"

definition getHandler ::
  "config \<Rightarrow> world \<Rightarrow> gin_context \<Rightarrow> string \<Rightarrow> string \<Rightarrow> (string \<times> string list) list
     \<Rightarrow> panic + gin_context" where
  "getHandler cfg w c commandParam argsParam query =
     (let req = zeroRequest;
          req = req\<lparr>command := commandParam\<rparr>;
          req = req\<lparr>args := Split argsParam (CHR ''/'')\<rparr>
      in case getHandler_loop query req of
           Inl p \<Rightarrow> Inl p
         | Inr req \<Rightarrow> Inr (run cfg w c (command req) (fullArgs cfg w req) None))"

text \<open>
  \<^verbatim>\<open>postHandler\<close>. \<open>bound\<close> is what \<^verbatim>\<open>c.Bind(&req)\<close> gives: an error message or the
  request. After the \<^verbatim>\<open>len(cmds) < 1\<close> test the source does not return, and
  \<^verbatim>\<open>cmds[0]\<close> on an empty slice would panic. A handler that panics leaves the rest to
  the recovery middleware of the router, which is outside the program.
\<close>

definition postHandler ::
  "config \<Rightarrow> world \<Rightarrow> gin_context \<Rightarrow> string + request \<Rightarrow> panic + gin_context" where
  "postHandler cfg w c bound =
     (case bound of
        Inl err \<Rightarrow> Inr (respError c 400 err)
      | Inr req \<Rightarrow>
          (let cmds = Split (command req) (CHR '' '');
               c = (if length cmds < 1 then respError c 400 ''no command given'' else c)
           in case cmds of
                [] \<Rightarrow> Inl IndexOutOfRange
              | name # subcmds \<Rightarrow>
                  (let argv = subcmds @ fullArgs cfg w req
                   in Inr (run cfg w c name argv (envStrings cfg w req)))))"

subsection \<open>Startup\<close>

text \<open>
  \<^verbatim>\<open>main\<close> up to the point where the server starts: \<open>parsed\<close> holds the flag values
  after \<^verbatim>\<open>flag.Parse()\<close>, \<open>positional\<close> is \<^verbatim>\<open>flag.Args()\<close>.
\<close>

datatype startup = Exit nat | Serve config

definition main :: "world \<Rightarrow> config \<Rightarrow> string list \<Rightarrow> startup" where
  "main w parsed positional =
     (let cfg = parsed\<lparr>whitelist := positional\<rparr>
      in if length (whitelist cfg) = 0 then Exit 1
         else Serve (if ToLower (unicodeLower w) (responseType cfg) = ''text''
                     then cfg\<lparr>myRunner := RunText\<rparr>
                     else cfg\<lparr>responseType := ''json'', myRunner := RunJson\<rparr>))"

subsection \<open>The specification's splitting of the command field\<close>




subsection \<open>An example host\<close>

text \<open>
  A world for the concrete examples below. Its maps have keys among \<open>bee\<close>, \<open>a\<close> and
  \<open>K\<close>, which a \<^verbatim>\<open>range\<close> visits in this order; every command exits with status 0
  and prints \<open>ok\<close>; the host environment holds one variable.
\<close>

definition exampleWorld :: world where
  "exampleWorld =
     \<lparr>rangeOrder = (\<lambda>f. List.map_filter (\<lambda>k. map_option (Pair k) (f k)) [''bee'', ''a'', ''K'']),
      unicodeUpper = (\<lambda>s. s),
      unicodeLower = (\<lambda>s. s),
      execute = (\<lambda>c. Exited ''ok'' '''' ''ok''),
      hostEnviron = [''SECRET=hunter2'']\<rparr>"

section \<open>Properties\<close>

subsection \<open>The loops in closed form\<close>

lemma inWhitelist_loop_set: "inWhitelist_loop ws name = (name \<in> set ws)"
  by (induction ws) auto

lemma argsFilter_loop_eq:
  "argsFilter_loop argv s = s @ map TrimSpace (filter (\<lambda>a. a \<noteq> '''') argv)"
  by (induction argv arbitrary: s) auto

lemma flagStrings_loop_eq:
  "flagStrings_loop dashes kvs fs =
     fs @ concat (map (\<lambda>(k, v).
            (if dashes \<and> \<not> HasPrefix (TrimSpace k) ''-''
             then (if length (TrimSpace k) = 1 then ''-'' else ''--'') @ TrimSpace k
             else TrimSpace k)
            # (if TrimSpace v = '''' then [] else [TrimSpace v])) kvs)"
  by (induction kvs arbitrary: fs) (auto simp: Let_def)


subsection \<open>Splitting\<close>

lemma Split_from_nonempty: "Split_from sep tok s \<noteq> []"
  by (induction s arbitrary: tok) auto



subsection \<open>What \<open>run\<close> does to the context\<close>


lemma written_run:
  "\<exists>r. fst r \<in> {200, 500} \<and>
     written (run cfg w c name argv env) =
       written c
       @ (if inWhitelist cfg name then [] else [(403, JSON_error ''command not allowed.'')])
       @ [r]"
  by (cases "myRunner cfg";
      cases "execute w \<lparr>Path = name, Args = name # argsFilter argv, Env = env\<rparr>")
     (simp_all add: run_def checkCommand_def respError_def call_runner_def runText_def
        runJson_def runFailed_def CommandContext_def Let_def)

lemma run_not_allowed:
  "\<not> inWhitelist cfg name \<Longrightarrow>
   \<exists>r. fst r \<in> {200, 500} \<and> run cfg w c name argv env =
     \<lparr>written = written c @ [(403, JSON_error ''command not allowed.''), r],
      started = started c @ [\<lparr>Path = name, Args = name # argsFilter argv, Env = env\<rparr>]\<rparr>"
  by (cases c; cases "myRunner cfg";
      cases "execute w \<lparr>Path = name, Args = name # argsFilter argv, Env = env\<rparr>")
     (simp_all add: run_def checkCommand_def respError_def call_runner_def runText_def
        runJson_def runFailed_def CommandContext_def Let_def)

subsection \<open>The translators\<close>

lemma flagStrings_nil_flags: "flags req = None \<Longrightarrow> flagStrings cfg w req = []"
  by (simp add: flagStrings_def rangeMap_def)

lemma postHandler_empty_command:
  "postHandler cfg w c (Inr (req\<lparr>command := ''''\<rparr>))
     = Inr (run cfg w c '''' (flagStrings cfg w req @ args req) (envStrings cfg w req))"
  by (simp add: postHandler_def Split_def fullArgs_def flagStrings_def envStrings_def)

lemma getHandler_loop_nil_flags:
  "flags req = None \<Longrightarrow>
     getHandler_loop query req =
       (if \<exists>(k, v) \<in> set query. k \<noteq> '''' \<and> v \<noteq> [] then Inl NilMapAssignment else Inr req)"
  by (induction query) (auto simp: mapassign_def)

lemma getHandler_eq:
  "getHandler cfg w c commandParam argsParam query =
     (if \<exists>(k, v) \<in> set query. k \<noteq> '''' \<and> v \<noteq> [] then Inl NilMapAssignment
      else Inr (run cfg w c commandParam (Split argsParam (CHR ''/'')) None))"
proof -
  let ?req = "zeroRequest\<lparr>command := commandParam, args := Split argsParam (CHR ''/'')\<rparr>"
  have nil: "flags ?req = None"
    by (simp add: zeroRequest_def)
  have "fullArgs cfg w ?req = Split argsParam (CHR ''/'')"
    by (simp add: fullArgs_def flagStrings_nil_flags [OF nil])
  then show ?thesis
    by (simp add: getHandler_def getHandler_loop_nil_flags [OF nil])
qed


subsection \<open>Lower case of ASCII letters\<close>

lemma lowerByte_eq_iff:
  "(lowerByte c = l) =
     (if 0x41 \<le> (of_char c :: nat) \<and> (of_char c :: nat) \<le> 0x5A
      then (of_char c :: nat) + 0x20 = of_char l else c = l)"
proof -
  have "(of_char c :: nat) < 256"
    by simp
  then show ?thesis
    by (auto simp: lowerByte_def Let_def char_of_eq_iff take_bit_eq_mod)
qed

lemma char_eq_of_char: "(c = d) = ((of_char c :: nat) = of_char d)"
  by simp

lemma lowerByte_t: "(lowerByte c = CHR ''t'') = (c = CHR ''t'' \<or> c = CHR ''T'')"
  unfolding lowerByte_eq_iff char_eq_of_char [of c] by auto

lemma lowerByte_e: "(lowerByte c = CHR ''e'') = (c = CHR ''e'' \<or> c = CHR ''E'')"
  unfolding lowerByte_eq_iff char_eq_of_char [of c] by auto

lemma lowerByte_x: "(lowerByte c = CHR ''x'') = (c = CHR ''x'' \<or> c = CHR ''X'')"
  unfolding lowerByte_eq_iff char_eq_of_char [of c] by auto

lemma map_lowerByte_text:
  "(map lowerByte s = ''text'') =
     (\<exists>c1 c2 c3 c4. s = [c1, c2, c3, c4]
        \<and> c1 \<in> {CHR ''t'', CHR ''T''} \<and> c2 \<in> {CHR ''e'', CHR ''E''}
        \<and> c3 \<in> {CHR ''x'', CHR ''X''} \<and> c4 \<in> {CHR ''t'', CHR ''T''})"
proof -
  have "(map lowerByte s = ''text'') =
     (\<exists>c1 c2 c3 c4. s = [c1, c2, c3, c4]
        \<and> lowerByte c1 = CHR ''t'' \<and> lowerByte c2 = CHR ''e''
        \<and> lowerByte c3 = CHR ''x'' \<and> lowerByte c4 = CHR ''t'')"
    by (auto simp: map_eq_Cons_conv)
  then show ?thesis
    by (simp only: lowerByte_t lowerByte_e lowerByte_x insert_iff empty_iff simp_thms)
qed

subsection \<open>Orders in which a map can be visited\<close>

lemma distinct_two_elements:
  assumes "distinct xs" and "set xs = {x, y}" and "x \<noteq> y"
  shows "xs = [x, y] \<or> xs = [y, x]"
proof -
  from assms have "length xs = 2"
    using distinct_card [of xs] by simp
  then obtain p q where xs: "xs = [p, q]"
    by (cases xs; cases "tl xs") auto
  with assms show ?thesis
    by (auto simp: doubleton_eq_iff)
qed

lemma valid_range_entries:
  assumes "valid_range w f"
  shows "set (rangeOrder w f) = {(k, v). f k = Some v}" and "distinct (rangeOrder w f)"
proof -
  from assms have d: "distinct (map fst (rangeOrder w f))" and m: "map_of (rangeOrder w f) = f"
    by (simp_all add: valid_range_def)
  from d show "distinct (rangeOrder w f)"
    by (simp add: distinct_map)
  show "set (rangeOrder w f) = {(k, v). f k = Some v}"
    using map_of_eq_Some_iff [OF d] m by auto
qed

lemma valid_range_two:
  assumes "valid_range w [k1 \<mapsto> v1, k2 \<mapsto> v2]" and "k1 \<noteq> k2"
  shows "rangeOrder w [k1 \<mapsto> v1, k2 \<mapsto> v2] = [(k1, v1), (k2, v2)]
       \<or> rangeOrder w [k1 \<mapsto> v1, k2 \<mapsto> v2] = [(k2, v2), (k1, v1)]"
proof -
  let ?f = "[k1 \<mapsto> v1, k2 \<mapsto> v2]"
  have "{(k, v). ?f k = Some v} = {(k1, v1), (k2, v2)}"
    using assms(2) by (auto split: if_splits)
  with valid_range_entries [OF assms(1)]
  have "set (rangeOrder w ?f) = {(k1, v1), (k2, v2)}" "distinct (rangeOrder w ?f)"
    by simp_all
  then show ?thesis
    using assms(2) distinct_two_elements [of "rangeOrder w ?f" "(k1, v1)" "(k2, v2)"] by simp
qed



lemma exampleWorld_range_ab:
  "rangeOrder exampleWorld [''a'' \<mapsto> '''', ''bee'' \<mapsto> ''1''] = [(''bee'', ''1''), (''a'', '''')]"
  by (simp add: exampleWorld_def List.map_filter_simps)


subsection \<open>Trimming, on the strings of the examples\<close>

lemma TrimSpace_examples:
  "TrimSpace '''' = ''''"
  "TrimSpace ''a'' = ''a''"
  "TrimSpace ''bee'' = ''bee''"
  "TrimSpace ''1'' = ''1''"
  "TrimSpace ''K'' = ''K''"
  "TrimSpace ''V'' = ''V''"
  "TrimSpace ''hi'' = ''hi''"
  "TrimSpace ''there'' = ''there''"
  by code_simp+

lemma TrimSpace_white_space_examples:
  "TrimSpace ([CHR 0x09] @ ''x y'' @ [CHR 0x0A]) = ''x y''"
  "TrimSpace ([CHR 0xC2, CHR 0xA0] @ ''x'' @ [CHR 0xE3, CHR 0x80, CHR 0x80]) = ''x''"
  "TrimSpace ([CHR 0xC2] @ '' '') = [CHR 0xC2]"
  by code_simp+

subsection \<open>The whitelist guard\<close>

text \<open>
  Claim C7. The whitelist test is exact string membership: a command passes exactly
  when it is equal to an entry of the whitelist, with no prefix or glob matching, no
  case folding and no trimming. \<open>ls\<close> passes the whitelist \<open>ls, pwd\<close>; \<open>ls\<close> followed by
  a space does not pass the whitelist \<open>ls\<close>, and neither does \<open>LS\<close> or \<open>l\<close>.
\<close>

theorem inWhitelist_exact:
  "inWhitelist cfg name = (name \<in> set (whitelist cfg))
   \<and> inWhitelist (cfg\<lparr>whitelist := [''ls'', ''pwd'']\<rparr>) ''ls''
   \<and> \<not> inWhitelist (cfg\<lparr>whitelist := [''ls'']\<rparr>) ''ls ''
   \<and> \<not> inWhitelist (cfg\<lparr>whitelist := [''ls'']\<rparr>) ''LS''
   \<and> \<not> inWhitelist (cfg\<lparr>whitelist := [''ls'']\<rparr>) ''l''"
  by (simp add: inWhitelist_def inWhitelist_loop_set)

subsection \<open>The argument sanitizer\<close>

text \<open>
  Claim C3, as stated: the sanitizer drops every element that is empty after trimming,
  so that the list \<open>""\<close>, \<open>" "\<close>, \<open>"x"\<close>, \<open>""\<close> becomes \<open>"x"\<close>. It does not: the
  element \<open>" "\<close> is compared with \<open>""\<close> before it is trimmed and survives as \<open>""\<close>.
\<close>

theorem argsFilter_keeps_blank_counterexample:
  "argsFilter ['''', '' '', ''x'', ''''] \<noteq> [''x'']"
  by code_simp

text \<open>
  Claim C3, amended. The sanitizer drops exactly the elements that are equal to the
  empty string before trimming and trims every surviving element, keeping the order; an
  element of white space only survives as the empty string, and the list \<open>""\<close>, \<open>" "\<close>,
  \<open>"x"\<close>, \<open>""\<close> becomes \<open>""\<close>, \<open>"x"\<close>.
\<close>

theorem argsFilter_drops_empty_then_trims:
  "argsFilter argv = map TrimSpace (filter (\<lambda>a. a \<noteq> '''') argv)
   \<and> argsFilter ['''', '' '', ''x'', ''''] = ['''', ''x'']"
proof
  show "argsFilter argv = map TrimSpace (filter (\<lambda>a. a \<noteq> '''') argv)"
    by (simp add: argsFilter_def argsFilter_loop_eq)
  show "argsFilter ['''', '' '', ''x'', ''''] = ['''', ''x'']"
    by code_simp
qed

subsection \<open>The GET translator\<close>

text \<open>
  Claim C8. The GET translator starts from the zero request, whose flags map is nil, and
  assigning into a nil map panics. So a GET request with a query parameter that has a
  non-empty key and at least one value makes the translator panic instead of producing an
  invocation, and a GET request without such a parameter never assigns: it goes on to
  \<open>run\<close> with the path segments as arguments and a nil environment.
\<close>

theorem getHandler_writes_nil_flags_map:
  "flags zeroRequest = None
   \<and> mapassign (flags zeroRequest) k x = Inl NilMapAssignment
   \<and> ((\<exists>(k, v) \<in> set query. k \<noteq> '''' \<and> v \<noteq> []) \<longrightarrow>
        getHandler cfg w c commandParam argsParam query = Inl NilMapAssignment)
   \<and> (\<not> (\<exists>(k, v) \<in> set query. k \<noteq> '''' \<and> v \<noteq> []) \<longrightarrow>
        getHandler cfg w c commandParam argsParam query =
          Inr (run cfg w c commandParam (Split argsParam (CHR ''/'')) None))"
  by (simp add: getHandler_eq zeroRequest_def mapassign_def)

theorem getHandler_writes_nil_flags_map_witness:
  "getHandler flagDefaults exampleWorld newContext ''ls'' ''/'' [(''l'', [''''])]
     = Inl NilMapAssignment
   \<and> getHandler flagDefaults exampleWorld newContext ''ls'' ''/'' [('''', [''1'']), (''l'', [])]
     = Inr (run flagDefaults exampleWorld newContext ''ls'' ['''', ''''] None)"
  using getHandler_writes_nil_flags_map
          [of _ _ "[(''l'', [''''])]" flagDefaults exampleWorld newContext "''ls''" "''/''"]
        getHandler_writes_nil_flags_map
          [of _ _ "[('''', [''1'']), (''l'', [])]" flagDefaults exampleWorld newContext
              "''ls''" "''/''"]
  by (simp add: Split_def)

subsection \<open>The POST translator and the empty command\<close>

text \<open>
  Claim C9. Splitting any string on a space gives at least one token, so the test
  \<open>len(cmds) < 1\<close> of the POST translator never holds and its ``no command given''
  response is never written. A bound request whose command is the empty string goes to
  \<open>run\<close> with the program \<open>""\<close>, where the whitelist check is the first step; the
  responses written are then the 403 of the whitelist check (unless \<open>""\<close> is
  whitelisted) and the runner's 200 or 500, never a 400.
\<close>

theorem postHandler_no_command_unreachable:
  "\<not> length (Split s (CHR '' '')) < 1
   \<and> postHandler cfg w c (Inr (req\<lparr>command := ''''\<rparr>))
       = Inr (run cfg w c '''' (flagStrings cfg w req @ args req) (envStrings cfg w req))
   \<and> run cfg w c '''' argv env
       = call_runner (myRunner cfg) w (checkCommand cfg c '''' argv)
           \<lparr>Path = '''', Args = '''' # argsFilter argv, Env = env\<rparr>
   \<and> (\<exists>r. fst r \<in> {200, 500} \<and>
         written (run cfg w c '''' argv env) =
           written c
           @ (if inWhitelist cfg '''' then [] else [(403, JSON_error ''command not allowed.'')])
           @ [r])"
proof (intro conjI)
  show "\<not> length (Split s (CHR '' '')) < 1"
    using Split_from_nonempty [of "CHR '' ''" "[]" s]
    by (cases "Split s (CHR '' '')") (simp_all add: Split_def)
  show "postHandler cfg w c (Inr (req\<lparr>command := ''''\<rparr>))
       = Inr (run cfg w c '''' (flagStrings cfg w req @ args req) (envStrings cfg w req))"
    by (rule postHandler_empty_command)
  show "run cfg w c '''' argv env
       = call_runner (myRunner cfg) w (checkCommand cfg c '''' argv)
           \<lparr>Path = '''', Args = '''' # argsFilter argv, Env = env\<rparr>"
    by (simp add: run_def CommandContext_def)
  show "\<exists>r. fst r \<in> {200, 500} \<and>
         written (run cfg w c '''' argv env) =
           written c
           @ (if inWhitelist cfg '''' then [] else [(403, JSON_error ''command not allowed.'')])
           @ [r]"
    by (rule written_run)
qed

text \<open>
  Claim C4 says that an empty command gets a 400 before the whitelist is consulted. At
  the request with the empty command (and nothing else) and the default whitelist, the
  POST translator writes no 400: the empty program reaches the whitelist check, which
  writes the 403, and the command is then run all the same.
\<close>

theorem empty_command_reaches_whitelist:
  "\<exists>r. fst r \<in> {200, 500} \<and>
     postHandler flagDefaults w newContext (Inr zeroRequest) =
       Inr \<lparr>written = [(403, JSON_error ''command not allowed.''), r],
            started = [\<lparr>Path = '''', Args = [''''], Env = None\<rparr>]\<rparr>"
proof -
  have "\<not> inWhitelist flagDefaults ''''"
    by (simp add: inWhitelist_def flagDefaults_def)
  from run_not_allowed [OF this, of w newContext "[]" None]
  have "\<exists>r. fst r \<in> {200, 500} \<and>
     run flagDefaults w newContext '''' [] None =
       \<lparr>written = [(403, JSON_error ''command not allowed.''), r],
        started = [\<lparr>Path = '''', Args = [''''], Env = None\<rparr>]\<rparr>"
    by (simp add: newContext_def argsFilter_def)
  moreover have "postHandler flagDefaults w newContext (Inr zeroRequest) =
      Inr (run flagDefaults w newContext '''' [] None)"
    using postHandler_empty_command [of flagDefaults w newContext zeroRequest]
    by (simp add: zeroRequest_def flagStrings_def envStrings_def rangeMap_def)
  ultimately show ?thesis
    by simp
qed

subsection \<open>A rejected command\<close>

text \<open>
  Claim C1 says that a command outside the whitelist gets the 403 and that no process is
  started for it. At \<open>GET /rm/-rf//\<close> with the default whitelist \<open>pwd\<close> the 403 is
  written, and then \<open>run\<close> goes on: the command \<open>rm -rf\<close> is handed to the operating
  system and a second response is written.
\<close>

theorem rejected_command_is_run:
  "\<exists>r. fst r \<in> {200, 500} \<and>
     getHandler flagDefaults w newContext ''rm'' ''/-rf//'' [] =
       Inr \<lparr>written = [(403, JSON_error ''command not allowed.''), r],
            started = [\<lparr>Path = ''rm'', Args = [''rm'', ''-rf''], Env = None\<rparr>]\<rparr>"
proof -
  have a: "argsFilter (Split ''/-rf//'' (CHR ''/'')) = [''-rf'']"
    by code_simp
  have "\<not> inWhitelist flagDefaults ''rm''"
    by (simp add: inWhitelist_def flagDefaults_def)
  from run_not_allowed [OF this, of w newContext "Split ''/-rf//'' (CHR ''/'')" None]
  show ?thesis
    unfolding getHandler_eq a by (auto simp: newContext_def)
qed

subsection \<open>Startup: the response format\<close>

text \<open>
  Claim C10. With a non-empty whitelist, startup goes through for every value of
  \<open>-resp\<close>: a value whose lower-case form is \<open>text\<close> selects the text runner and is
  stored as given; every other value selects the JSON runner and the stored value
  becomes \<open>json\<close>. The match ignores case: an ASCII value has the lower-case form
  \<open>text\<close> exactly when it spells \<open>text\<close> with each letter in either case.
\<close>

theorem main_selects_runner:
  "(positional \<noteq> [] \<longrightarrow>
      main w parsed positional =
        Serve (if ToLower (unicodeLower w) (responseType parsed) = ''text''
               then parsed\<lparr>whitelist := positional, myRunner := RunText\<rparr>
               else parsed\<lparr>whitelist := positional, responseType := ''json'',
                            myRunner := RunJson\<rparr>))
   \<and> (isASCII s \<longrightarrow>
        (ToLower uni s = ''text'') =
          (\<exists>c1 c2 c3 c4. s = [c1, c2, c3, c4]
             \<and> c1 \<in> {CHR ''t'', CHR ''T''} \<and> c2 \<in> {CHR ''e'', CHR ''E''}
             \<and> c3 \<in> {CHR ''x'', CHR ''X''} \<and> c4 \<in> {CHR ''t'', CHR ''T''}))"
  by (simp add: main_def ToLower_def map_lowerByte_text)

theorem main_selects_runner_witness:
  "main exampleWorld (flagDefaults\<lparr>responseType := ''TeXt''\<rparr>) [''ls'']
     = Serve (flagDefaults\<lparr>responseType := ''TeXt'', whitelist := [''ls''],
                           myRunner := RunText\<rparr>)
   \<and> main exampleWorld (flagDefaults\<lparr>responseType := ''yaml''\<rparr>) [''ls'']
     = Serve (flagDefaults\<lparr>responseType := ''json'', whitelist := [''ls''],
                           myRunner := RunJson\<rparr>)
   \<and> ToLower (unicodeLower exampleWorld) ''TeXt'' = ''text''"
proof -
  have ascii: "isASCII ''TeXt''"
    by (simp add: isASCII_def)
  have lower: "ToLower (unicodeLower exampleWorld) ''TeXt'' = ''text''"
    using main_selects_runner [of _ _ _ "''TeXt''" "unicodeLower exampleWorld"] ascii
    by simp
  have other: "ToLower (unicodeLower exampleWorld) ''yaml'' \<noteq> ''text''"
    by (simp add: ToLower_def isASCII_def lowerByte_def char_of_eq_iff)
  show ?thesis
    using main_selects_runner
            [of "[''ls'']" exampleWorld "flagDefaults\<lparr>responseType := ''TeXt''\<rparr>"]
          main_selects_runner
            [of "[''ls'']" exampleWorld "flagDefaults\<lparr>responseType := ''yaml''\<rparr>"]
          lower other
    by (simp add: flagDefaults_def)
qed

subsection \<open>Flags as tokens\<close>

text \<open>
  Claim C6, as stated: with add-dashes enabled the flags \<open>a\<close> (no value) and \<open>bee\<close>
  (value \<open>1\<close>) give the tokens \<open>-a\<close>, \<open>--bee\<close>, \<open>1\<close>, in the insertion order of the
  mapping. The flags are a Go map, which has no insertion order: a \<^verbatim>\<open>range\<close> may
  visit \<open>bee\<close> first, as the example host does, and the tokens are then \<open>--bee\<close>, \<open>1\<close>,
  \<open>-a\<close>.
\<close>

theorem flagStrings_order_counterexample:
  "valid_range exampleWorld [''a'' \<mapsto> '''', ''bee'' \<mapsto> ''1'']
   \<and> flagStrings (flagDefaults\<lparr>addDashes := True\<rparr>) exampleWorld
         (zeroRequest\<lparr>flags := Some [''a'' \<mapsto> '''', ''bee'' \<mapsto> ''1'']\<rparr>)
       = [''--bee'', ''1'', ''-a'']
   \<and> flagStrings (flagDefaults\<lparr>addDashes := True\<rparr>) exampleWorld
         (zeroRequest\<lparr>flags := Some [''a'' \<mapsto> '''', ''bee'' \<mapsto> ''1'']\<rparr>)
       \<noteq> [''-a'', ''--bee'', ''1'']"
  by (simp add: valid_range_def exampleWorld_range_ab flagStrings_def rangeMap_def
        flagDefaults_def TrimSpace_examples HasPrefix_def)

text \<open>
  Claim C6, amended. \<open>flagStrings\<close> trims each key and value; with add-dashes enabled a
  trimmed key that does not start with a dash gets a single dash when it is one byte long
  and a double dash otherwise; the key is one token, followed by the trimmed value as a
  second token exactly when that value is not empty. The pairs come in the order in which
  the \<^verbatim>\<open>range\<close> over the map visits them: every entry once, in an order that the
  map does not determine. For the flags \<open>a\<close> (no value) and \<open>bee\<close> (value \<open>1\<close>) the
  result is \<open>-a\<close>, \<open>--bee\<close>, \<open>1\<close> or \<open>--bee\<close>, \<open>1\<close>, \<open>-a\<close>.
\<close>

theorem flagStrings_in_range_order:
  "flagStrings cfg w req =
     concat (map (\<lambda>(k, v).
         (if addDashes cfg \<and> \<not> HasPrefix (TrimSpace k) ''-''
          then (if length (TrimSpace k) = 1 then ''-'' else ''--'') @ TrimSpace k
          else TrimSpace k)
         # (if TrimSpace v = '''' then [] else [TrimSpace v]))
       (rangeMap w (flags req)))
   \<and> (flags req = Some f \<and> valid_range w f \<longrightarrow>
        set (rangeMap w (flags req)) = {(k, v). f k = Some v}
        \<and> distinct (map fst (rangeMap w (flags req))))
   \<and> (addDashes cfg \<and> flags req = Some [''a'' \<mapsto> '''', ''bee'' \<mapsto> ''1'']
        \<and> valid_range w [''a'' \<mapsto> '''', ''bee'' \<mapsto> ''1''] \<longrightarrow>
        flagStrings cfg w req = [''-a'', ''--bee'', ''1'']
        \<or> flagStrings cfg w req = [''--bee'', ''1'', ''-a''])"
proof (intro conjI impI)
  show "flagStrings cfg w req =
     concat (map (\<lambda>(k, v).
         (if addDashes cfg \<and> \<not> HasPrefix (TrimSpace k) ''-''
          then (if length (TrimSpace k) = 1 then ''-'' else ''--'') @ TrimSpace k
          else TrimSpace k)
         # (if TrimSpace v = '''' then [] else [TrimSpace v]))
       (rangeMap w (flags req)))"
    by (simp add: flagStrings_def flagStrings_loop_eq)
next
  assume "flags req = Some f \<and> valid_range w f"
  then show "set (rangeMap w (flags req)) = {(k, v). f k = Some v}"
    using valid_range_entries(1) [of w f] by (simp add: rangeMap_def)
next
  assume "flags req = Some f \<and> valid_range w f"
  then show "distinct (map fst (rangeMap w (flags req)))"
    by (simp add: rangeMap_def valid_range_def)
next
  let ?f = "[''a'' \<mapsto> '''', ''bee'' \<mapsto> ''1'']"
  assume a: "addDashes cfg \<and> flags req = Some ?f \<and> valid_range w ?f"
  then have "rangeOrder w ?f = [(''a'', ''''), (''bee'', ''1'')]
      \<or> rangeOrder w ?f = [(''bee'', ''1''), (''a'', '''')]"
    using valid_range_two [of w "''a''" "''''" "''bee''" "''1''"] by simp
  with a show "flagStrings cfg w req = [''-a'', ''--bee'', ''1'']
        \<or> flagStrings cfg w req = [''--bee'', ''1'', ''-a'']"
    by (auto simp: flagStrings_def rangeMap_def TrimSpace_examples HasPrefix_def)
qed

theorem flagStrings_in_range_order_witness:
  "set (rangeMap exampleWorld (Some [''a'' \<mapsto> '''', ''bee'' \<mapsto> ''1'']))
      = {(''a'', ''''), (''bee'', ''1'')}
   \<and> (flagStrings (flagDefaults\<lparr>addDashes := True\<rparr>) exampleWorld
         (zeroRequest\<lparr>flags := Some [''a'' \<mapsto> '''', ''bee'' \<mapsto> ''1'']\<rparr>)
         = [''-a'', ''--bee'', ''1'']
       \<or> flagStrings (flagDefaults\<lparr>addDashes := True\<rparr>) exampleWorld
         (zeroRequest\<lparr>flags := Some [''a'' \<mapsto> '''', ''bee'' \<mapsto> ''1'']\<rparr>)
         = [''--bee'', ''1'', ''-a''])"
proof -
  let ?f = "[''a'' \<mapsto> '''', ''bee'' \<mapsto> ''1'']"
  let ?cfg = "flagDefaults\<lparr>addDashes := True\<rparr>"
  let ?req = "zeroRequest\<lparr>flags := Some ?f\<rparr>"
  have v: "valid_range exampleWorld ?f"
    by (simp add: valid_range_def exampleWorld_range_ab)
  have fl: "flags ?req = Some ?f" and ad: "addDashes ?cfg"
    by simp_all
  have s: "{(k, v). ?f k = Some v} = {(''a'', ''''), (''bee'', ''1'')}"
    by (auto split: if_splits)
  note th = flagStrings_in_range_order [of ?cfg exampleWorld ?req ?f]
  from th fl v have "set (rangeMap exampleWorld (flags ?req)) = {(k, v). ?f k = Some v}"
    by blast
  then have 1: "set (rangeMap exampleWorld (Some ?f)) = {(''a'', ''''), (''bee'', ''1'')}"
    unfolding s by simp
  from th fl v ad have 2: "flagStrings ?cfg exampleWorld ?req = [''-a'', ''--bee'', ''1'']
       \<or> flagStrings ?cfg exampleWorld ?req = [''--bee'', ''1'', ''-a'']"
    by blast
  from 1 2 show ?thesis
    by blast
qed

subsection \<open>The argument vector of a POST request\<close>




subsection \<open>The environment of the child process\<close>






end
